theory Spec2Isabelle
  imports Main "HOL-Library.Char_ord" "HOL-Library.List_Lexorder"
begin

section \<open>Go values, errors and panics\<close>

text \<open>
  Errors are values. The three domain errors are the package's own sentinels
  (\<^verbatim>\<open>ErrLockNotAvailable\<close>, \<^verbatim>\<open>ErrUniqConstraint\<close>, \<^verbatim>\<open>ErrDeadLock\<close>);
  \<^verbatim>\<open>pgx.ErrTxCommitRollback\<close> is the driver's sentinel that \<^verbatim>\<open>errors.Is\<close> looks for at
  commit; every other error of the driver is a message, or wraps another error under a
  message of its own.
\<close>

datatype error =
    ErrLockNotAvailable
  | ErrUniqConstraint
  | ErrDeadLock
  | ErrTxCommitRollback
  | DriverError string
  | Wrapped string error

fun Error :: "error \<Rightarrow> string" where
  "Error ErrLockNotAvailable = ''lock not available''"
| "Error ErrUniqConstraint = ''violate uniq constraint''"
| "Error ErrDeadLock = ''dead lock''"
| "Error ErrTxCommitRollback = ''commit unexpectedly resulted in rollback''"
| "Error (DriverError m) = m"
| "Error (Wrapped m e) = m"

text \<open>\<^verbatim>\<open>errors.Is\<close>: the error itself or one it wraps is the target.\<close>

fun errors_Is :: "error \<Rightarrow> error \<Rightarrow> bool" where
  "errors_Is (Wrapped m e) target = (Wrapped m e = target \<or> errors_Is e target)"
| "errors_Is e target = (e = target)"

text \<open>
  A value of Go's \<^verbatim>\<open>any\<close> as the code handles it: statement arguments, result cells and
  struct fields. \<^verbatim>\<open>GTime\<close> is a \<^verbatim>\<open>time.Time\<close> instant.
\<close>

datatype gvalue =
    GNil
  | GBool bool
  | GInt int
  | GString string
  | GTime nat

text \<open>What \<^verbatim>\<open>panic\<close> carries: the code panics with strings and with error values.\<close>

datatype panic_value =
    PanicString string
  | PanicError error
  | PanicOther gvalue

definition PanicPlaceHolderNumberNotMatch :: string where
  "PanicPlaceHolderNumberNotMatch = ''the number of PlaceHolder must match the number of args''"

definition PanicDeleteSQLMustUseWhere :: string where
  "PanicDeleteSQLMustUseWhere = ''delete sql must use where keyword''"

definition PanicSelectSQLMustUseWhere :: string where
  "PanicSelectSQLMustUseWhere = ''select sql must use where keyword''"

definition PanicUpdateSQLMustUseWhere :: string where
  "PanicUpdateSQLMustUseWhere = ''update sql must use where keyword''"

definition PanicUpdateSQLMustHaveUpdatedAt :: string where
  "PanicUpdateSQLMustHaveUpdatedAt = ''update sql must have updated_at field''"

definition PanicLockingReadMustUseNowait :: string where
  "PanicLockingReadMustUseNowait = ''locking read must use nowait''"

definition PanicCommitDespiteErrInTx :: string where
  "PanicCommitDespiteErrInTx = ''you have executed commit despite there is error in transaction''"

definition PanicQueryNotContanSelect :: string where
  "PanicQueryNotContanSelect = ''select does not contain select''"

definition PanicSQLIsSeqScan :: string where
  "PanicSQLIsSeqScan = ''sql executed by Seq Scan: %s''"

definition PostgresErrCodeLockNotAvailable :: string where
  "PostgresErrCodeLockNotAvailable = ''55P03''"

definition PostgresErrCodeUniqConstraint :: string where
  "PostgresErrCodeUniqConstraint = ''23505''"

definition PostgresErrCodeDeadLock :: string where
  "PostgresErrCodeDeadLock = ''40P01''"

section \<open>String utilities\<close>

text \<open>
  Strings are byte lists, as Go's are. \<^verbatim>\<open>to_lower_char\<close> is the step of the ASCII
  fast path of \<^verbatim>\<open>strings.ToLower\<close>: \<^verbatim>\<open>c += 'a' - 'A'\<close> on a byte in \<^verbatim>\<open>A..Z\<close>.
\<close>

definition to_lower_char :: "char \<Rightarrow> char" where
  "to_lower_char c =
     (if CHR ''A'' \<le> c \<and> c \<le> CHR ''Z'' then char_of (of_char c + (32::nat)) else c)"

text \<open>No byte is \<^verbatim>\<open>utf8.RuneSelf\<close> (0x80) or above.\<close>

definition isASCII :: "string \<Rightarrow> bool" where
  "isASCII s = list_all (\<lambda>c. (of_char c :: nat) < 128) s"

fun has_prefix :: "string \<Rightarrow> string \<Rightarrow> bool" where
  "has_prefix s [] = True"
| "has_prefix [] (p # ps) = False"
| "has_prefix (c # s) (p # ps) = (c = p \<and> has_prefix s ps)"

text \<open>\<^verbatim>\<open>strings.Contains(s, substr)\<close>.\<close>

fun strings_Contains :: "string \<Rightarrow> string \<Rightarrow> bool" where
  "strings_Contains [] sub = (sub = [])"
| "strings_Contains (c # s) sub = (has_prefix (c # s) sub \<or> strings_Contains s sub)"

text \<open>\<^verbatim>\<open>strings.Count(query, "$")\<close>: the number of \<^verbatim>\<open>$\<close> bytes.\<close>

definition count_placeholders :: "string \<Rightarrow> nat" where
  "count_placeholders query = count_list query (CHR ''$'')"

text \<open>\<^verbatim>\<open>fmt.Sprintf\<close> for formats whose only verb is \<^verbatim>\<open>%s\<close>, on string operands.\<close>

fun Sprintf :: "string \<Rightarrow> string list \<Rightarrow> string" where
  "Sprintf [] as = []"
| "Sprintf [c] as = [c]"
| "Sprintf (c # d # fs) as =
     (if c = CHR ''%'' \<and> d = CHR ''s''
      then (case as of
              [] \<Rightarrow> ''%!s(MISSING)'' @ Sprintf fs []
            | a # as' \<Rightarrow> a @ Sprintf fs as')
      else c # Sprintf (d # fs) as)"

text \<open>\<^verbatim>\<open>strings.Join\<close>.\<close>

fun Join :: "string list \<Rightarrow> string \<Rightarrow> string" where
  "Join [] sep = []"
| "Join [x] sep = x"
| "Join (x # y # xs) sep = x @ sep @ Join (y # xs) sep"

section \<open>Process-wide configuration\<close>

record config =
  Mode :: string
  useSeqScanCheck :: bool
  useWhereCheck :: bool
  forceNowaitOnLockingRead :: bool
  forceUpdatedAtCheck :: bool
  DebugSQL :: bool

definition MODE_PRODUCTION :: string where
  "MODE_PRODUCTION = ''production''"

definition MODE_DEBUG :: string where
  "MODE_DEBUG = ''debug''"

definition seqScanCheckDisableClause :: string where
  "seqScanCheckDisableClause = ''seq scan check disable''"

definition disableWhereCheckClause :: string where
  "disableWhereCheckClause = ''where check disable''"

text \<open>The values the package variables are initialised with.\<close>

definition default_config :: config where
  "default_config =
     \<lparr> Mode = MODE_DEBUG, useSeqScanCheck = True, useWhereCheck = True,
       forceNowaitOnLockingRead = True, forceUpdatedAtCheck = True, DebugSQL = False \<rparr>"

definition isDebugMode :: "config \<Rightarrow> panic_value + bool" where
  "isDebugMode cfg =
     (if Mode cfg = MODE_PRODUCTION then Inr False
      else if Mode cfg = MODE_DEBUG then Inr True
      else Inl (PanicString ''invalid Mode''))"

section \<open>The driver and the history of effects\<close>

text \<open>
  A connection handle is the shared pool \<^verbatim>\<open>DB\<close> or a transaction opened on it.
  A result set is what the driver hands back for one query: the column names
  (\<^verbatim>\<open>rows.ColumnTypes\<close>, which may fail), the rows in order, each either a scan failure or
  the cell values as \<^verbatim>\<open>database/sql\<close> converts them for the destinations, and the error
  \<^verbatim>\<open>rows.Err\<close> reports after the iteration.
\<close>

datatype conn = DB | Tx nat

record rows =
  rows_columns :: "error + string list"
  rows_data :: "(error + gvalue list) list"
  rows_err :: "error option"

datatype event =
    EvBegin
  | EvQuery conn string "gvalue list"
  | EvExec conn string "gvalue list"
  | EvRollback nat
  | EvCommit nat
  | EvNow
  | EvLog string string

text \<open>
  The plan explanation as a JSON document: a node has a \<^verbatim>\<open>Node Type\<close> and its
  \<^verbatim>\<open>Plans\<close>, nested without bound.
\<close>

datatype plan_tree = PlanNode string "plan_tree list"

text \<open>
  The external collaborators. Each answer may depend on everything that happened before
  (the history of events), so the driver is any deterministic environment.
  \<^verbatim>\<open>drv_json_plans\<close> is \<^verbatim>\<open>encoding/json\<close> reading the explain text as an array of
  \<^verbatim>\<open>{"Plan": ...}\<close> objects, before the fixed-depth struct \<^verbatim>\<open>Plan\<close> drops what it has no
  field for; \<^verbatim>\<open>drv_Now\<close> is the clock behind \<^verbatim>\<open>time.Now\<close>;
  \<^verbatim>\<open>drv_unicode_ToLower\<close> is the standard library's \<^verbatim>\<open>strings.Map(unicode.ToLower, s)\<close>,
  with its UTF-8 decoding and its Unicode case tables, which \<^verbatim>\<open>strings.ToLower\<close> falls
  back to for a text with a byte outside ASCII.
\<close>

record driver =
  drv_Begin :: "event list \<Rightarrow> error + nat"
  drv_Query :: "conn \<Rightarrow> string \<Rightarrow> gvalue list \<Rightarrow> event list \<Rightarrow> error + rows"
  drv_Exec :: "conn \<Rightarrow> string \<Rightarrow> gvalue list \<Rightarrow> event list \<Rightarrow> error + nat"
  drv_Rollback :: "nat \<Rightarrow> event list \<Rightarrow> error option"
  drv_Commit :: "nat \<Rightarrow> event list \<Rightarrow> error option"
  drv_json_plans :: "string \<Rightarrow> error + plan_tree list"
  drv_Now :: "event list \<Rightarrow> nat"
  drv_unicode_ToLower :: "string \<Rightarrow> string"

text \<open>
  \<^verbatim>\<open>strings.ToLower\<close>: a text of ASCII bytes only is lowered byte by byte (the fast
  path, which returns the text itself when it has no capital); any other text goes
  through \<^verbatim>\<open>strings.Map(unicode.ToLower, s)\<close>. So nothing is assumed about how a
  non-ASCII text is lowered: some of its letters lower into ASCII (U+212A to \<^verbatim>\<open>k\<close>,
  U+0130 to \<^verbatim>\<open>i\<close>), and invalid UTF-8 is rewritten.
\<close>

definition ToLower :: "driver \<Rightarrow> string \<Rightarrow> string" where
  "ToLower drv s = (if isASCII s then map to_lower_char s else drv_unicode_ToLower drv s)"

definition StrContainWithIgnoreCase :: "driver \<Rightarrow> string \<Rightarrow> string \<Rightarrow> bool" where
  "StrContainWithIgnoreCase drv target str =
     strings_Contains (ToLower drv target) (ToLower drv str)"

text \<open>
  A computation takes the history so far and gives back a panic or a result, with the
  history extended by what it did.
\<close>

type_synonym 'a prog = "event list \<Rightarrow> (panic_value + 'a) \<times> event list"

definition returnP :: "'a \<Rightarrow> 'a prog" where
  "returnP x = (\<lambda>h. (Inr x, h))"

definition panicP :: "panic_value \<Rightarrow> 'a prog" where
  "panicP p = (\<lambda>h. (Inl p, h))"

definition bindP :: "'a prog \<Rightarrow> ('a \<Rightarrow> 'b prog) \<Rightarrow> 'b prog" where
  "bindP m f = (\<lambda>h. case m h of (Inl p, h') \<Rightarrow> (Inl p, h') | (Inr x, h') \<Rightarrow> f x h')"

definition logP :: "string \<Rightarrow> string \<Rightarrow> unit prog" where
  "logP level msg = (\<lambda>h. (Inr (), h @ [EvLog level msg]))"

definition DB_Begin :: "driver \<Rightarrow> (error + nat) prog" where
  "DB_Begin drv = (\<lambda>h. (Inr (drv_Begin drv h), h @ [EvBegin]))"

definition conn_Query :: "driver \<Rightarrow> conn \<Rightarrow> string \<Rightarrow> gvalue list \<Rightarrow> (error + rows) prog" where
  "conn_Query drv c q args = (\<lambda>h. (Inr (drv_Query drv c q args h), h @ [EvQuery c q args]))"

definition conn_Exec :: "driver \<Rightarrow> conn \<Rightarrow> string \<Rightarrow> gvalue list \<Rightarrow> (error + nat) prog" where
  "conn_Exec drv c q args = (\<lambda>h. (Inr (drv_Exec drv c q args h), h @ [EvExec c q args]))"

definition tx_Rollback :: "driver \<Rightarrow> nat \<Rightarrow> (error option) prog" where
  "tx_Rollback drv t = (\<lambda>h. (Inr (drv_Rollback drv t h), h @ [EvRollback t]))"

definition tx_Commit :: "driver \<Rightarrow> nat \<Rightarrow> (error option) prog" where
  "tx_Commit drv t = (\<lambda>h. (Inr (drv_Commit drv t h), h @ [EvCommit t]))"

definition time_Now :: "driver \<Rightarrow> nat prog" where
  "time_Now drv = (\<lambda>h. (Inr (drv_Now drv h), h @ [EvNow]))"

definition isAssumedSQLError :: "error \<Rightarrow> error option" where
  "isAssumedSQLError err =
     (if strings_Contains (Error err) PostgresErrCodeLockNotAvailable then Some ErrLockNotAvailable
      else if strings_Contains (Error err) PostgresErrCodeUniqConstraint then Some ErrUniqConstraint
      else if strings_Contains (Error err) PostgresErrCodeDeadLock then Some ErrDeadLock
      else None)"


section \<open>The plan auditor\<close>

text \<open>
  The struct \<^verbatim>\<open>Plan\<close>: the root node and ten nested levels of \<^verbatim>\<open>Plans\<close>; the
  innermost level has a \<^verbatim>\<open>Node Type\<close> only.
\<close>

datatype plan10 = Plan10 string
datatype plan9 = Plan9 string "plan10 list"
datatype plan8 = Plan8 string "plan9 list"
datatype plan7 = Plan7 string "plan8 list"
datatype plan6 = Plan6 string "plan7 list"
datatype plan5 = Plan5 string "plan6 list"
datatype plan4 = Plan4 string "plan5 list"
datatype plan3 = Plan3 string "plan4 list"
datatype plan2 = Plan2 string "plan3 list"
datatype plan1 = Plan1 string "plan2 list"
datatype Plan = Plan string "plan1 list"

text \<open>
  \<^verbatim>\<open>json.Unmarshal\<close> into \<^verbatim>\<open>[]Plan\<close>: a level the struct has no field for is dropped.
\<close>

fun decode10 :: "plan_tree \<Rightarrow> plan10" where
  "decode10 (PlanNode n cs) = Plan10 n"

fun decode9 :: "plan_tree \<Rightarrow> plan9" where
  "decode9 (PlanNode n cs) = Plan9 n (map decode10 cs)"

fun decode8 :: "plan_tree \<Rightarrow> plan8" where
  "decode8 (PlanNode n cs) = Plan8 n (map decode9 cs)"

fun decode7 :: "plan_tree \<Rightarrow> plan7" where
  "decode7 (PlanNode n cs) = Plan7 n (map decode8 cs)"

fun decode6 :: "plan_tree \<Rightarrow> plan6" where
  "decode6 (PlanNode n cs) = Plan6 n (map decode7 cs)"

fun decode5 :: "plan_tree \<Rightarrow> plan5" where
  "decode5 (PlanNode n cs) = Plan5 n (map decode6 cs)"

fun decode4 :: "plan_tree \<Rightarrow> plan4" where
  "decode4 (PlanNode n cs) = Plan4 n (map decode5 cs)"

fun decode3 :: "plan_tree \<Rightarrow> plan3" where
  "decode3 (PlanNode n cs) = Plan3 n (map decode4 cs)"

fun decode2 :: "plan_tree \<Rightarrow> plan2" where
  "decode2 (PlanNode n cs) = Plan2 n (map decode3 cs)"

fun decode1 :: "plan_tree \<Rightarrow> plan1" where
  "decode1 (PlanNode n cs) = Plan1 n (map decode2 cs)"

fun decode_Plan :: "plan_tree \<Rightarrow> Plan" where
  "decode_Plan (PlanNode n cs) = Plan n (map decode1 cs)"

text \<open>
  The ten nested \<^verbatim>\<open>for ... range\<close> loops of \<^verbatim>\<open>CheckSeqScan\<close>, innermost first; each
  carries the flag \<^verbatim>\<open>plansHaveSeqScan\<close>.
\<close>

fun loop10 :: "driver \<Rightarrow> plan10 list \<Rightarrow> bool \<Rightarrow> bool" where
  "loop10 drv [] flag = flag"
| "loop10 drv (Plan10 n # ps) flag =
     loop10 drv ps (if StrContainWithIgnoreCase drv n ''Seq Scan'' then True else flag)"

fun loop9 :: "driver \<Rightarrow> plan9 list \<Rightarrow> bool \<Rightarrow> bool" where
  "loop9 drv [] flag = flag"
| "loop9 drv (Plan9 n cs # ps) flag =
     loop9 drv ps (loop10 drv cs (if StrContainWithIgnoreCase drv n ''Seq Scan'' then True else flag))"

fun loop8 :: "driver \<Rightarrow> plan8 list \<Rightarrow> bool \<Rightarrow> bool" where
  "loop8 drv [] flag = flag"
| "loop8 drv (Plan8 n cs # ps) flag =
     loop8 drv ps (loop9 drv cs (if StrContainWithIgnoreCase drv n ''Seq Scan'' then True else flag))"

fun loop7 :: "driver \<Rightarrow> plan7 list \<Rightarrow> bool \<Rightarrow> bool" where
  "loop7 drv [] flag = flag"
| "loop7 drv (Plan7 n cs # ps) flag =
     loop7 drv ps (loop8 drv cs (if StrContainWithIgnoreCase drv n ''Seq Scan'' then True else flag))"

fun loop6 :: "driver \<Rightarrow> plan6 list \<Rightarrow> bool \<Rightarrow> bool" where
  "loop6 drv [] flag = flag"
| "loop6 drv (Plan6 n cs # ps) flag =
     loop6 drv ps (loop7 drv cs (if StrContainWithIgnoreCase drv n ''Seq Scan'' then True else flag))"

fun loop5 :: "driver \<Rightarrow> plan5 list \<Rightarrow> bool \<Rightarrow> bool" where
  "loop5 drv [] flag = flag"
| "loop5 drv (Plan5 n cs # ps) flag =
     loop5 drv ps (loop6 drv cs (if StrContainWithIgnoreCase drv n ''Seq Scan'' then True else flag))"

fun loop4 :: "driver \<Rightarrow> plan4 list \<Rightarrow> bool \<Rightarrow> bool" where
  "loop4 drv [] flag = flag"
| "loop4 drv (Plan4 n cs # ps) flag =
     loop4 drv ps (loop5 drv cs (if StrContainWithIgnoreCase drv n ''Seq Scan'' then True else flag))"

fun loop3 :: "driver \<Rightarrow> plan3 list \<Rightarrow> bool \<Rightarrow> bool" where
  "loop3 drv [] flag = flag"
| "loop3 drv (Plan3 n cs # ps) flag =
     loop3 drv ps (loop4 drv cs (if StrContainWithIgnoreCase drv n ''Seq Scan'' then True else flag))"

fun loop2 :: "driver \<Rightarrow> plan2 list \<Rightarrow> bool \<Rightarrow> bool" where
  "loop2 drv [] flag = flag"
| "loop2 drv (Plan2 n cs # ps) flag =
     loop2 drv ps (loop3 drv cs (if StrContainWithIgnoreCase drv n ''Seq Scan'' then True else flag))"

fun loop1 :: "driver \<Rightarrow> plan1 list \<Rightarrow> bool \<Rightarrow> bool" where
  "loop1 drv [] flag = flag"
| "loop1 drv (Plan1 n cs # ps) flag =
     loop1 drv ps (loop2 drv cs (if StrContainWithIgnoreCase drv n ''Seq Scan'' then True else flag))"

text \<open>
  \<^verbatim>\<open>rows.Scan(&s)\<close> with one string destination, and the loop collecting the explain
  rows.
\<close>

fun scan_string :: "error + gvalue list \<Rightarrow> error + string" where
  "scan_string (Inl e) = Inl e"
| "scan_string (Inr [GString s]) = Inr s"
| "scan_string (Inr vs) = Inl (DriverError ''sql: Scan error'')"

fun scan_strings :: "(error + gvalue list) list \<Rightarrow> string list \<Rightarrow> error + string list" where
  "scan_strings [] r = Inr r"
| "scan_strings (row # rest) r =
     (case scan_string row of
        Inl err \<Rightarrow> Inl err
      | Inr s \<Rightarrow> scan_strings rest (r @ [s]))"

definition set_local_seqscan_off :: string where
  "set_local_seqscan_off = ''SET LOCAL enable_seqscan TO '' @ [CHR 0x27] @ ''off'' @ [CHR 0x27]"

text \<open>
  \<^verbatim>\<open>CheckSeqScan\<close>: \<^verbatim>\<open>True\<close> when the statement is not audited or its plan has no
  sequential scan. The deferred \<^verbatim>\<open>rows.Close\<close> leaves no trace here. The second
  \<^verbatim>\<open>json.Unmarshal\<close> (into maps, lines 361-365) reads the text the first one accepted as an
  array of objects, so it has no failing branch of its own.
\<close>

definition CheckSeqScan :: "config \<Rightarrow> driver \<Rightarrow> string \<Rightarrow> gvalue list \<Rightarrow> bool prog" where
  "CheckSeqScan cfg drv query args =
     (if \<not> useSeqScanCheck cfg \<or> StrContainWithIgnoreCase drv query seqScanCheckDisableClause
      then returnP True
      else case isDebugMode cfg of
        Inl p \<Rightarrow> panicP p
      | Inr False \<Rightarrow> panicP (PanicString ''not use this function without debug mode'')
      | Inr True \<Rightarrow>
          bindP (DB_Begin drv) (\<lambda>b. case b of
            Inl err \<Rightarrow> panicP (PanicError err)
          | Inr tx \<Rightarrow>
          bindP (conn_Exec drv (Tx tx) set_local_seqscan_off []) (\<lambda>e. case e of
            Inl err \<Rightarrow> panicP (PanicString (Sprintf ''SET exec failed: %s'' [Error err]))
          | Inr res \<Rightarrow>
          bindP (conn_Query drv (Tx tx) (''EXPLAIN (ANALYZE false, FORMAT json) '' @ query) args)
            (\<lambda>q. case q of
            Inl err \<Rightarrow>
              panicP (PanicString
                (Sprintf ''query failed: %s, failed query: %s'' [Error err, query]))
          | Inr rs \<Rightarrow>
          (case scan_strings (rows_data rs) [] of
            Inl err \<Rightarrow> panicP (PanicError err)
          | Inr r \<Rightarrow>
          (case rows_err rs of
            Some err \<Rightarrow> panicP (PanicError err)
          | None \<Rightarrow>
          bindP (tx_Rollback drv tx) (\<lambda>rb. case rb of
            Some err \<Rightarrow> panicP (PanicError err)
          | None \<Rightarrow>
          if length r \<noteq> 1 then panicP (PanicString ''explain result is not 1 row'')
          else (case drv_json_plans drv (r ! 0) of
            Inl err \<Rightarrow> panicP (PanicError err)
          | Inr ts \<Rightarrow>
              (let p = map decode_Plan ts in
               if length p \<noteq> 1 then panicP (PanicString ''explain result json is not 1 child'')
               else (case p ! 0 of Plan nodeType plans \<Rightarrow>
                 (let plansHaveSeqScan = loop1 drv plans False in
                  if StrContainWithIgnoreCase drv nodeType ''Seq Scan'' \<or> plansHaveSeqScan
                  then returnP False
                  else returnP True)))))))))))"

text \<open>
  The audit step that closes both \<^verbatim>\<open>Query\<close> (lines 213-216) and \<^verbatim>\<open>Exec\<close> (lines
  441-444): \<^verbatim>\<open>if isDebugMode() && !CheckSeqScan(query, args...) { panic(...) }\<close>.
\<close>

definition seqScanGate :: "config \<Rightarrow> driver \<Rightarrow> string \<Rightarrow> gvalue list \<Rightarrow> unit prog" where
  "seqScanGate cfg drv query args =
     (case isDebugMode cfg of
        Inl p \<Rightarrow> panicP p
      | Inr False \<Rightarrow> returnP ()
      | Inr True \<Rightarrow>
          bindP (CheckSeqScan cfg drv query args) (\<lambda>ok.
            if \<not> ok then panicP (PanicString (Sprintf PanicSQLIsSeqScan [query]))
            else returnP ()))"

section \<open>Exec\<close>

text \<open>
  \<^verbatim>\<open>Exec\<close> returns \<^verbatim>\<open>(sql.Result, error)\<close>: the pair \<^verbatim>\<open>(nil, e)\<close> for a classified
  driver error, \<^verbatim>\<open>(result, nil)\<close> otherwise. The result is the affected-row count.
\<close>

definition Exec ::
  "config \<Rightarrow> driver \<Rightarrow> conn option \<Rightarrow> string \<Rightarrow> gvalue list \<Rightarrow> (nat option \<times> error option) prog"
where
  "Exec cfg drv tx query args =
     (if count_placeholders query \<noteq> length args
      then panicP (PanicString PanicPlaceHolderNumberNotMatch)
      else if useWhereCheck cfg \<and> StrContainWithIgnoreCase drv query ''DELETE ''
              \<and> \<not> StrContainWithIgnoreCase drv query '' WHERE ''
              \<and> \<not> StrContainWithIgnoreCase drv query disableWhereCheckClause
      then panicP (PanicString PanicDeleteSQLMustUseWhere)
      else if StrContainWithIgnoreCase drv query ''UPDATE ''
              \<and> useWhereCheck cfg \<and> \<not> StrContainWithIgnoreCase drv query '' WHERE ''
              \<and> \<not> StrContainWithIgnoreCase drv query disableWhereCheckClause
      then panicP (PanicString PanicUpdateSQLMustUseWhere)
      else if StrContainWithIgnoreCase drv query ''UPDATE ''
              \<and> forceUpdatedAtCheck cfg \<and> \<not> StrContainWithIgnoreCase drv query ''updated_at''
      then panicP (PanicString PanicUpdateSQLMustHaveUpdatedAt)
      else
        bindP (conn_Exec drv (case tx of None \<Rightarrow> DB | Some t \<Rightarrow> t) query args) (\<lambda>e. case e of
          Inl err \<Rightarrow>
            (case isAssumedSQLError err of
               Some e' \<Rightarrow> returnP (None, Some e')
             | None \<Rightarrow>
                 panicP (PanicString
                   (Sprintf ''query failed: %s, failed query: %s'' [Error err, query])))
        | Inr result \<Rightarrow>
            bindP (seqScanGate cfg drv query args) (\<lambda>u. returnP (Some result, None))))"

section \<open>Query and the result materializer\<close>

text \<open>
  A struct field with its \<^verbatim>\<open>database\<close> tag (empty when there is none) and its value; a
  Go value handed over as \<^verbatim>\<open>any\<close> or as a type parameter: a struct with its declared
  name, a pointer (\<^verbatim>\<open>None\<close> is nil), or anything else.
\<close>

datatype sfield = Field (fname: string) (ftag: string) (fvalue: gvalue)

datatype go_any =
    AStruct string "sfield list"
  | APtr "go_any option"
  | AValue gvalue

text \<open>
  The map from column name to the address of the field carrying that tag; an address is
  the field's index in \<^verbatim>\<open>structValue\<close>.
\<close>

fun buildFieldMap :: "sfield list \<Rightarrow> nat \<Rightarrow> (string \<rightharpoonup> nat) \<Rightarrow> panic_value + (string \<rightharpoonup> nat)" where
  "buildFieldMap [] i m = Inr m"
| "buildFieldMap (f # fs) i m =
     (if ftag f = []
      then Inl (PanicString (Sprintf ''%s has no database label.'' [fname f]))
      else buildFieldMap fs (Suc i) (m(ftag f \<mapsto> i)))"

fun buildPtrs :: "(string \<rightharpoonup> nat) \<Rightarrow> string list \<Rightarrow> panic_value + nat list" where
  "buildPtrs m [] = Inr []"
| "buildPtrs m (c # cs) =
     (case m c of
        None \<Rightarrow> Inl (PanicString (''model does not have result field: '' @ c))
      | Some a \<Rightarrow>
          (case buildPtrs m cs of
             Inl p \<Rightarrow> Inl p
           | Inr as \<Rightarrow> Inr (a # as)))"

text \<open>
  \<^verbatim>\<open>rows.Scan(dest...)\<close>: fails when the row does, or when the number of destinations is
  not the number of cells; otherwise stores cell \<open>i\<close> through destination \<open>i\<close>, in order.
\<close>

definition store :: "sfield list \<Rightarrow> nat \<Rightarrow> gvalue \<Rightarrow> sfield list" where
  "store fs a v = fs[a := Field (fname (fs ! a)) (ftag (fs ! a)) v]"

definition Scan :: "sfield list \<Rightarrow> nat list \<Rightarrow> error + gvalue list \<Rightarrow> error + sfield list" where
  "Scan structValue dest row =
     (case row of
        Inl err \<Rightarrow> Inl err
      | Inr vs \<Rightarrow>
          if length vs \<noteq> length dest
          then Inl (DriverError ''sql: wrong number of destination arguments in Scan'')
          else Inr (fold (\<lambda>(a, v) fs. store fs a v) (zip dest vs) structValue))"

text \<open>
  The loop \<^verbatim>\<open>for rows.Next()\<close> of \<^verbatim>\<open>Query\<close>: \<^verbatim>\<open>mp\<close> is the caller's model,
  \<^verbatim>\<open>structValue\<close> the variable the destinations point into, \<^verbatim>\<open>r\<close> the output so far.
\<close>

fun scanRows ::
  "sfield list \<Rightarrow> sfield list \<Rightarrow> nat list \<Rightarrow> (error + gvalue list) list \<Rightarrow> sfield list list
   \<Rightarrow> panic_value + sfield list list"
where
  "scanRows mp structValue dest [] r = Inr r"
| "scanRows mp structValue dest (row # rest) r =
     (let structValue1 = mp in
      case Scan structValue1 dest row of
        Inl err \<Rightarrow> Inl (PanicError err)
      | Inr structValue2 \<Rightarrow> scanRows mp structValue2 dest rest (r @ [structValue2]))"

text \<open>
  Lines 158-211 of \<^verbatim>\<open>Query\<close>, from the copy of the model to the check of
  \<^verbatim>\<open>rows.Err\<close>: the records built from a result set, or the panic.
\<close>

definition materializeRows :: "go_any \<Rightarrow> rows \<Rightarrow> panic_value + go_any list" where
  "materializeRows m rs =
     (case m of
        AStruct tname structValue \<Rightarrow>
          (case buildFieldMap structValue 0 Map.empty of
             Inl p \<Rightarrow> Inl p
           | Inr structFieldNameToTypeMap \<Rightarrow>
          (case rows_columns rs of
             Inl err \<Rightarrow> Inl (PanicError err)
           | Inr ct \<Rightarrow>
          (case buildPtrs structFieldNameToTypeMap ct of
             Inl p \<Rightarrow> Inl p
           | Inr structFieldValuePtrInterfaces \<Rightarrow>
          (case scanRows structValue structValue structFieldValuePtrInterfaces (rows_data rs) [] of
             Inl p \<Rightarrow> Inl p
           | Inr r \<Rightarrow>
          (case rows_err rs of
             Some err \<Rightarrow> Inl (PanicError err)
           | None \<Rightarrow> Inr (map (AStruct tname) r))))))
      | APtr x \<Rightarrow> Inl (PanicString ''model mubt be struct.'')
      | AValue x \<Rightarrow> Inl (PanicString ''model mubt be struct.''))"

text \<open>
  \<^verbatim>\<open>Query\<close> returns \<^verbatim>\<open>([]M, error)\<close>: \<^verbatim>\<open>(nil, e)\<close> for a classified driver error,
  \<^verbatim>\<open>(r, nil)\<close> otherwise; \<^verbatim>\<open>None\<close> in the first component is the nil slice.
\<close>

definition Query ::
  "config \<Rightarrow> driver \<Rightarrow> conn option \<Rightarrow> go_any option \<Rightarrow> string \<Rightarrow> gvalue list
   \<Rightarrow> (go_any list option \<times> error option) prog"
where
  "Query cfg drv tx mp query args =
     (case mp of
        None \<Rightarrow> panicP (PanicString ''arg mp must not be null'')
      | Some m \<Rightarrow>
      if count_placeholders query \<noteq> length args
      then panicP (PanicString PanicPlaceHolderNumberNotMatch)
      else if \<not> StrContainWithIgnoreCase drv query ''SELECT ''
      then panicP (PanicString PanicQueryNotContanSelect)
      else if useWhereCheck cfg \<and> \<not> StrContainWithIgnoreCase drv query '' WHERE ''
              \<and> \<not> StrContainWithIgnoreCase drv query disableWhereCheckClause
      then panicP (PanicString PanicSelectSQLMustUseWhere)
      else if forceNowaitOnLockingRead cfg
              \<and> (StrContainWithIgnoreCase drv query '' FOR SELECT''
                 \<or> StrContainWithIgnoreCase drv query '' FOR UPDATE'')
              \<and> \<not> StrContainWithIgnoreCase drv query '' NOWAIT''
      then panicP (PanicString PanicLockingReadMustUseNowait)
      else
        bindP (conn_Query drv (case tx of None \<Rightarrow> DB | Some t \<Rightarrow> t) query args) (\<lambda>q. case q of
          Inl err \<Rightarrow>
            (case isAssumedSQLError err of
               Some e' \<Rightarrow> returnP (None, Some e')
             | None \<Rightarrow>
                 panicP (PanicString
                   (Sprintf ''query failed: %s, failed query: %s'' [Error err, query])))
        | Inr rs \<Rightarrow>
            (case materializeRows m rs of
               Inl p \<Rightarrow> panicP p
             | Inr r \<Rightarrow>
                 bindP (seqScanGate cfg drv query args) (\<lambda>u. returnP (Some r, None)))))"

section \<open>The transaction coordinator\<close>

text \<open>
  The unit of work \<open>f\<close> receives the transaction handle; it returns an error or nil, or
  panics, and may itself talk to the driver. The context argument only reaches the
  logger and is left out. \<^verbatim>\<open>recover()\<close> yields the panic value whenever \<open>f\<close> panicked
  (Go 1.23: never nil then).
\<close>

definition doAndRecover :: "driver \<Rightarrow> nat \<Rightarrow> (nat \<Rightarrow> error option prog) \<Rightarrow> error option prog" where
  "doAndRecover drv tx f =
     (\<lambda>h. case f tx h of
        (Inl r, h1) \<Rightarrow>
          bindP (logP ''warn'' ''rollback start because panic occured'') (\<lambda>u1.
          bindP (tx_Rollback drv tx) (\<lambda>rb. case rb of
            Some err \<Rightarrow> panicP (PanicError err)
          | None \<Rightarrow>
          bindP (logP ''warn'' ''rollback end'') (\<lambda>u2.
          panicP r))) h1
      | (Inr err, h1) \<Rightarrow> (Inr err, h1))"

definition Transaction :: "driver \<Rightarrow> (nat \<Rightarrow> error option prog) \<Rightarrow> error option prog" where
  "Transaction drv f =
     bindP (DB_Begin drv) (\<lambda>b. case b of
       Inl err \<Rightarrow> panicP (PanicError err)
     | Inr tx \<Rightarrow>
     bindP (doAndRecover drv tx f) (\<lambda>r. case r of
       Some err \<Rightarrow>
         bindP (logP ''info'' ''rollback start'') (\<lambda>u1.
         bindP (tx_Rollback drv tx) (\<lambda>rb. case rb of
           Some err2 \<Rightarrow> panicP (PanicError err2)
         | None \<Rightarrow>
         bindP (logP ''info'' ''rollback end'') (\<lambda>u2.
         returnP (Some err))))
     | None \<Rightarrow>
         bindP (tx_Commit drv tx) (\<lambda>cm. case cm of
           Some err2 \<Rightarrow>
             if errors_Is err2 ErrTxCommitRollback
             then panicP (PanicString PanicCommitDespiteErrInTx)
             else panicP (PanicError err2)
         | None \<Rightarrow> returnP None)))"

section \<open>The query builder\<close>

definition is_lower_or_digit :: "char \<Rightarrow> bool" where
  "is_lower_or_digit c =
     ((CHR ''a'' \<le> c \<and> c \<le> CHR ''z'') \<or> (CHR ''0'' \<le> c \<and> c \<le> CHR ''9''))"

definition is_upper :: "char \<Rightarrow> bool" where
  "is_upper c = (CHR ''A'' \<le> c \<and> c \<le> CHR ''Z'')"

text \<open>
  \<^verbatim>\<open>ReplaceAllString\<close> of \<^verbatim>\<open>([a-z0-9])([A-Z])\<close> by \<^verbatim>\<open>${1}_${2}\<close>: matches are taken left
  to right and do not overlap, so the search resumes after the capital.
\<close>

fun snake :: "string \<Rightarrow> string" where
  "snake (a # b # s) =
     (if is_lower_or_digit a \<and> is_upper b then a # CHR ''_'' # b # snake s
      else a # snake (b # s))"
| "snake s = s"

definition toTableName :: "driver \<Rightarrow> string \<Rightarrow> string" where
  "toTableName drv str = ToLower drv (snake str) @ ''s''"

definition checkAndGetStructValue :: "go_any \<Rightarrow> panic_value + (string \<times> sfield list)" where
  "checkAndGetStructValue s =
     (let rv = (case s of APtr x \<Rightarrow> x | AStruct n fs \<Rightarrow> Some s | AValue v \<Rightarrow> Some s) in
      case rv of
        Some (AStruct n fs) \<Rightarrow> Inr (n, fs)
      | Some (APtr x) \<Rightarrow> Inl (PanicString ''must be a struct'')
      | Some (AValue v) \<Rightarrow> Inl (PanicString ''must be a struct'')
      | None \<Rightarrow> Inl (PanicString ''must be a struct''))"

text \<open>\<^verbatim>\<open>strconv.Itoa\<close> on a count.\<close>

function Itoa :: "nat \<Rightarrow> string" where
  "Itoa n = (if n < 10 then [char_of (48 + n)] else Itoa (n div 10) @ [char_of (48 + n mod 10)])"
  by pat_completeness auto
termination
  by (relation "measure id") auto

text \<open>
  \<^verbatim>\<open>replacePlaceholders\<close>: every \<^verbatim>\<open>?\<close>, left to right, becomes \<^verbatim>\<open>$\<close> and the next
  index.
\<close>

fun replacePlaceholders :: "string \<Rightarrow> nat \<Rightarrow> string" where
  "replacePlaceholders [] idx = []"
| "replacePlaceholders (c # s) idx =
     (if c = CHR ''?'' then ''$'' @ Itoa (Suc idx) @ replacePlaceholders s (Suc idx)
      else c # replacePlaceholders s idx)"

text \<open>
  A Go map is handed over as its entries in the order one iteration happens to visit
  them: distinct keys, any order. \<^verbatim>\<open>slices.Sort\<close> orders strings bytewise.
\<close>

definition getOrderedKeys :: "(string \<times> gvalue) list \<Rightarrow> string list" where
  "getOrderedKeys s = sort (map fst s)"

definition map_index :: "(string \<times> gvalue) list \<Rightarrow> string \<Rightarrow> gvalue" where
  "map_index m k = (case map_of m k of None \<Rightarrow> GNil | Some v \<Rightarrow> v)"

text \<open>
  The loop of \<^verbatim>\<open>getUpdateSQL\<close> over \<^verbatim>\<open>setValues\<close>, writing \<^verbatim>\<open>now\<close> into the clone
  \<^verbatim>\<open>values\<close> at the index of each \<^verbatim>\<open>"NOW"\<close>.
\<close>

fun rewriteNow :: "gvalue list \<Rightarrow> nat \<Rightarrow> gvalue list \<Rightarrow> nat \<Rightarrow> gvalue list" where
  "rewriteNow [] i vals now = vals"
| "rewriteNow (setValue # rest) i vals now =
     rewriteNow rest (Suc i) (if setValue = GString ''NOW'' then vals[i := GTime now] else vals) now"

definition getUpdateSQL ::
  "driver \<Rightarrow> go_any \<Rightarrow> string list \<Rightarrow> gvalue list \<Rightarrow> string list \<Rightarrow> gvalue list
   \<Rightarrow> (string \<times> gvalue list) prog"
where
  "getUpdateSQL drv s whereClauses whereValues setClauses setValues =
     (case checkAndGetStructValue s of
        Inl p \<Rightarrow> panicP p
      | Inr (rtName, rv) \<Rightarrow>
          bindP (time_Now drv) (\<lambda>now.
            let setClauses2 = setClauses;
                vals = setValues;
                vals = rewriteNow setValues 0 vals now;
                setClauses2 = setClauses2 @ [''updated_at = ?''];
                vals = vals @ [GTime now];
                vals = vals @ whereValues;
                whereClause =
                  (if length whereClauses > 0 then '' WHERE '' @ Join whereClauses '' AND ''
                   else []);
                tableName = toTableName drv rtName;
                query = ''UPDATE '' @ tableName @ '' SET '' @ Join setClauses2 '', '' @ whereClause;
                query = replacePlaceholders query 0
            in returnP (query, vals)))"

definition debugSQL :: "config \<Rightarrow> string \<Rightarrow> gvalue list \<Rightarrow> unit prog" where
  "debugSQL cfg sql vals = (if DebugSQL cfg then logP ''debug'' sql else returnP ())"

definition Update ::
  "config \<Rightarrow> driver \<Rightarrow> conn option \<Rightarrow> go_any \<Rightarrow> string list \<Rightarrow> gvalue list
   \<Rightarrow> (string \<times> gvalue) list \<Rightarrow> (nat option \<times> error option) prog"
where
  "Update cfg drv tx s whereClauses whereValues setMaps =
     (let setField = getOrderedKeys setMaps;
          setClauses = map (\<lambda>field. field @ '' = ?'') setField;
          setValues = map (\<lambda>field. map_index setMaps field) setField
      in bindP (getUpdateSQL drv s whereClauses whereValues setClauses setValues)
           (\<lambda>(sql, setValues2).
              bindP (debugSQL cfg sql setValues2) (\<lambda>u. Exec cfg drv tx sql setValues2)))"

definition UpdateWithClauses ::
  "config \<Rightarrow> driver \<Rightarrow> conn option \<Rightarrow> go_any \<Rightarrow> string list \<Rightarrow> gvalue list
   \<Rightarrow> string list \<Rightarrow> gvalue list \<Rightarrow> (nat option \<times> error option) prog"
where
  "UpdateWithClauses cfg drv tx s whereClauses whereValues setClauses setValues =
     bindP (getUpdateSQL drv s whereClauses whereValues setClauses setValues)
       (\<lambda>(sql, vals). bindP (debugSQL cfg sql vals) (\<lambda>u. Exec cfg drv tx sql vals))"



section \<open>Example environments\<close>

text \<open>
  A driver that always succeeds: it answers an \<^verbatim>\<open>EXPLAIN\<close> with one row of plan text,
  which decodes to the given plan, and any other query with two rows of columns
  \<^verbatim>\<open>id\<close> and \<^verbatim>\<open>name\<close>. The examples use ASCII texts only, so its
  \<^verbatim>\<open>drv_unicode_ToLower\<close> is never consulted.
\<close>

definition demo_rows :: rows where
  "demo_rows =
     \<lparr> rows_columns = Inr [''id'', ''name''],
       rows_data = [Inr [GInt 1, GString ''alice''], Inr [GInt 2, GString ''bob'']],
       rows_err = None \<rparr>"

definition explain_rows :: rows where
  "explain_rows =
     \<lparr> rows_columns = Inr [''QUERY PLAN''],
       rows_data = [Inr [GString ''[{}]'']],
       rows_err = None \<rparr>"

definition demo_driver :: "plan_tree \<Rightarrow> driver" where
  "demo_driver plan =
     \<lparr> drv_Begin = (\<lambda>h. Inr (length h)),
       drv_Query = (\<lambda>c q a h. if has_prefix q ''EXPLAIN '' then Inr explain_rows else Inr demo_rows),
       drv_Exec = (\<lambda>c q a h. Inr 1),
       drv_Rollback = (\<lambda>t h. None),
       drv_Commit = (\<lambda>t h. None),
       drv_json_plans = (\<lambda>s. Inr [plan]),
       drv_Now = (\<lambda>h. 1000 + length h),
       drv_unicode_ToLower = (\<lambda>s. s) \<rparr>"

definition index_plan :: plan_tree where
  "index_plan = PlanNode ''Limit'' [PlanNode ''Sort'' [PlanNode ''Index Scan'' []]]"

definition seq_plan :: plan_tree where
  "seq_plan = PlanNode ''LockRows'' [PlanNode ''Seq Scan'' []]"

definition demo_model :: go_any where
  "demo_model =
     AStruct ''TableForTest'' [Field ''ID'' ''id'' (GInt 0), Field ''Name'' ''name'' (GString [])]"


section \<open>Facts about panics\<close>

lemma fst_bindP:
  "fst (bindP m f h) = (case m h of (Inl p, h') \<Rightarrow> Inl p | (Inr x, h') \<Rightarrow> fst (f x h'))"
  by (simp add: bindP_def split: prod.splits sum.splits)

lemma has_prefix_append [simp]: "has_prefix (p @ t) p"
  by (induction p) auto

lemma CheckSeqScan_panic_shape:
  "(case fst (CheckSeqScan cfg drv q args h) of
      Inl (PanicString s) \<Rightarrow>
        s = ''invalid Mode'' \<or> s = ''not use this function without debug mode''
        \<or> s = ''explain result is not 1 row'' \<or> s = ''explain result json is not 1 child''
        \<or> has_prefix s ''SET exec failed: '' \<or> has_prefix s ''query failed: ''
    | Inl (PanicError e) \<Rightarrow> True
    | Inl (PanicOther v) \<Rightarrow> False
    | Inr ok \<Rightarrow> True)"
proof (cases "\<not> useSeqScanCheck cfg \<or> StrContainWithIgnoreCase drv q seqScanCheckDisableClause")
  case True
  then show ?thesis by (simp add: CheckSeqScan_def returnP_def)
next
  case False
  then show ?thesis
    by (simp add: CheckSeqScan_def isDebugMode_def returnP_def panicP_def bindP_def
        DB_Begin_def conn_Exec_def conn_Query_def tx_Rollback_def Let_def
      split: sum.splits option.splits bool.splits Plan.splits prod.splits)
qed

lemma CheckSeqScan_panic_string:
  assumes "CheckSeqScan cfg drv q args h = (Inl (PanicString s), h')"
  shows "s = ''invalid Mode'' \<or> s = ''not use this function without debug mode''
       \<or> s = ''explain result is not 1 row'' \<or> s = ''explain result json is not 1 child''
       \<or> has_prefix s ''SET exec failed: '' \<or> has_prefix s ''query failed: ''"
  using CheckSeqScan_panic_shape[of cfg drv q args h] assms by simp


lemma buildFieldMap_panic:
  "buildFieldMap fs i m = Inl p \<Longrightarrow> \<exists>n. p = PanicString (n @ '' has no database label.'')"
  by (induction fs i m rule: buildFieldMap.induct) (auto split: if_splits)

lemma buildPtrs_panic:
  "buildPtrs m cs = Inl p \<Longrightarrow> \<exists>c. p = PanicString (''model does not have result field: '' @ c)"
  by (induction cs arbitrary: p) (auto split: option.splits sum.splits)

lemma scanRows_panic:
  "scanRows mp sv dest rs r = Inl p \<Longrightarrow> \<exists>e. p = PanicError e"
  by (induction mp sv dest rs r rule: scanRows.induct) (auto simp: Let_def split: sum.splits)

lemma has_suffix_label: "has_prefix (rev (n @ '' has no database label.'')) (rev '' has no database label.'')"
  by simp

lemma materializeRows_panic_string:
  assumes "materializeRows m rs = Inl (PanicString s)"
  shows "s = ''model mubt be struct.'' \<or> has_prefix (rev s) (rev '' has no database label.'')
       \<or> has_prefix s ''model does not have result field: ''"
proof (cases m)
  case (AStruct tname sv)
  show ?thesis
  proof (cases "buildFieldMap sv 0 Map.empty")
    case (Inl p)
    then have "p = PanicString s" using assms AStruct by (simp add: materializeRows_def)
    with buildFieldMap_panic[OF Inl] obtain n where "s = n @ '' has no database label.''" by auto
    then show ?thesis using has_suffix_label[of n] by simp
  next
    case (Inr fm)
    note fm = this
    show ?thesis
    proof (cases "rows_columns rs")
      case (Inl e)
      then show ?thesis using assms AStruct fm by (simp add: materializeRows_def)
    next
      case (Inr ct)
      note ct = this
      show ?thesis
      proof (cases "buildPtrs fm ct")
        case (Inl p)
        then have "p = PanicString s" using assms AStruct fm ct by (simp add: materializeRows_def)
        with buildPtrs_panic[OF Inl] obtain c where "s = ''model does not have result field: '' @ c" by auto
        then show ?thesis by simp
      next
        case (Inr ptrs)
        note ptrs = this
        show ?thesis
        proof (cases "scanRows sv sv ptrs (rows_data rs) []")
          case (Inl p)
          then have "p = PanicString s" using assms AStruct fm ct ptrs by (simp add: materializeRows_def)
          with scanRows_panic[OF Inl] show ?thesis by auto
        next
          case (Inr r)
          then show ?thesis using assms AStruct fm ct ptrs
            by (simp add: materializeRows_def split: option.splits)
        qed
      qed
    qed
  qed
next
  case (APtr x)
  then show ?thesis using assms by (simp add: materializeRows_def)
next
  case (AValue x)
  then show ?thesis using assms by (simp add: materializeRows_def)
qed

lemma seqScanGate_panic_string:
  assumes "seqScanGate cfg drv q args h = (Inl (PanicString s), h')"
  shows "s = ''invalid Mode'' \<or> s = ''not use this function without debug mode''
       \<or> s = ''explain result is not 1 row'' \<or> s = ''explain result json is not 1 child''
       \<or> has_prefix s ''SET exec failed: '' \<or> has_prefix s ''query failed: ''
       \<or> has_prefix s ''sql executed by Seq Scan: ''"
proof (cases "isDebugMode cfg")
  case (Inl p)
  then have "s = ''invalid Mode''" using assms
    by (simp add: seqScanGate_def panicP_def isDebugMode_def split: if_splits)
  then show ?thesis by simp
next
  case (Inr b)
  note b = this
  show ?thesis
  proof (cases b)
    case False
    then show ?thesis using assms b by (simp add: seqScanGate_def returnP_def)
  next
    case True
    obtain r h1 where c: "CheckSeqScan cfg drv q args h = (r, h1)" by (cases "CheckSeqScan cfg drv q args h")
    show ?thesis
    proof (cases r)
      case (Inl p)
      then have "CheckSeqScan cfg drv q args h = (Inl (PanicString s), h')"
        using assms b True c by (simp add: seqScanGate_def bindP_def)
      from CheckSeqScan_panic_string[OF this] show ?thesis by blast
    next
      case (Inr ok)
      then have "s = ''sql executed by Seq Scan: '' @ q" using assms b True c
        by (simp add: seqScanGate_def bindP_def panicP_def returnP_def PanicSQLIsSeqScan_def split: if_splits)
      then show ?thesis by simp
    qed
  qed
qed


section \<open>Facts about the validation prefix\<close>

lemma CheckSeqScan_cfg_where [simp]:
  "CheckSeqScan (cfg\<lparr>useWhereCheck := b\<rparr>) = CheckSeqScan cfg"
  by (intro ext) (simp add: CheckSeqScan_def isDebugMode_def)

lemma seqScanGate_cfg_where [simp]:
  "seqScanGate (cfg\<lparr>useWhereCheck := b\<rparr>) = seqScanGate cfg"
  by (intro ext) (simp add: seqScanGate_def isDebugMode_def)

lemma Query_past_validation:
  assumes "count_placeholders q = length args"
    and "StrContainWithIgnoreCase drv q ''SELECT ''"
    and "\<not> useWhereCheck cfg \<or> StrContainWithIgnoreCase drv q '' WHERE ''
         \<or> StrContainWithIgnoreCase drv q disableWhereCheckClause"
    and "\<not> forceNowaitOnLockingRead cfg
         \<or> \<not> (StrContainWithIgnoreCase drv q '' FOR SELECT'' \<or> StrContainWithIgnoreCase drv q '' FOR UPDATE'')
         \<or> StrContainWithIgnoreCase drv q '' NOWAIT''"
  shows "Query cfg drv tx (Some m) q args h =
     (case drv_Query drv (case tx of None \<Rightarrow> DB | Some t \<Rightarrow> t) q args h of
        Inl err \<Rightarrow>
          (case isAssumedSQLError err of
             Some e' \<Rightarrow> (Inr (None, Some e'), h @ [EvQuery (case tx of None \<Rightarrow> DB | Some t \<Rightarrow> t) q args])
           | None \<Rightarrow> (Inl (PanicString (''query failed: '' @ Error err @ '', failed query: '' @ q)),
                       h @ [EvQuery (case tx of None \<Rightarrow> DB | Some t \<Rightarrow> t) q args]))
      | Inr rs \<Rightarrow>
          (case materializeRows m rs of
             Inl p \<Rightarrow> (Inl p, h @ [EvQuery (case tx of None \<Rightarrow> DB | Some t \<Rightarrow> t) q args])
           | Inr r \<Rightarrow>
               (case seqScanGate cfg drv q args (h @ [EvQuery (case tx of None \<Rightarrow> DB | Some t \<Rightarrow> t) q args]) of
                  (Inl p, h') \<Rightarrow> (Inl p, h')
                | (Inr u, h') \<Rightarrow> (Inr (Some r, None), h'))))"
  using assms
  by (auto simp add: Query_def bindP_def conn_Query_def returnP_def panicP_def
      split: sum.splits option.splits prod.splits)


lemma seqScanGate_cfg_updated [simp]:
  "seqScanGate (cfg\<lparr>forceUpdatedAtCheck := b\<rparr>) = seqScanGate cfg"
  by (intro ext) (simp add: seqScanGate_def CheckSeqScan_def isDebugMode_def)

lemma Exec_past_validation:
  assumes "count_placeholders q = length args"
    and "\<not> (useWhereCheck cfg \<and> StrContainWithIgnoreCase drv q ''DELETE '')
         \<or> StrContainWithIgnoreCase drv q '' WHERE ''
         \<or> StrContainWithIgnoreCase drv q disableWhereCheckClause"
    and "\<not> (useWhereCheck cfg \<and> StrContainWithIgnoreCase drv q ''UPDATE '')
         \<or> StrContainWithIgnoreCase drv q '' WHERE ''
         \<or> StrContainWithIgnoreCase drv q disableWhereCheckClause"
    and "\<not> (forceUpdatedAtCheck cfg \<and> StrContainWithIgnoreCase drv q ''UPDATE '')
         \<or> StrContainWithIgnoreCase drv q ''updated_at''"
  shows "Exec cfg drv tx q args h =
     (case drv_Exec drv (case tx of None \<Rightarrow> DB | Some t \<Rightarrow> t) q args h of
        Inl err \<Rightarrow>
          (case isAssumedSQLError err of
             Some e' \<Rightarrow> (Inr (None, Some e'), h @ [EvExec (case tx of None \<Rightarrow> DB | Some t \<Rightarrow> t) q args])
           | None \<Rightarrow> (Inl (PanicString (''query failed: '' @ Error err @ '', failed query: '' @ q)),
                       h @ [EvExec (case tx of None \<Rightarrow> DB | Some t \<Rightarrow> t) q args]))
      | Inr result \<Rightarrow>
          (case seqScanGate cfg drv q args (h @ [EvExec (case tx of None \<Rightarrow> DB | Some t \<Rightarrow> t) q args]) of
             (Inl p, h') \<Rightarrow> (Inl p, h')
           | (Inr u, h') \<Rightarrow> (Inr (Some result, None), h')))"
  using assms
  by (auto simp add: Exec_def bindP_def conn_Exec_def returnP_def panicP_def
      split: sum.splits option.splits prod.splits)

text \<open>A panic of \<^verbatim>\<open>Exec\<close> with one of the validator's messages comes from the validator.\<close>

lemma Exec_validator_panic:
  assumes "fst (Exec cfg drv tx q args h) = Inl (PanicString s)"
    and "s = PanicDeleteSQLMustUseWhere \<or> s = PanicUpdateSQLMustUseWhere
         \<or> s = PanicUpdateSQLMustHaveUpdatedAt \<or> s = PanicLockingReadMustUseNowait"
  shows "count_placeholders q = length args \<and>
     (if useWhereCheck cfg \<and> StrContainWithIgnoreCase drv q ''DELETE ''
         \<and> \<not> StrContainWithIgnoreCase drv q '' WHERE ''
         \<and> \<not> StrContainWithIgnoreCase drv q disableWhereCheckClause
      then s = PanicDeleteSQLMustUseWhere
      else if StrContainWithIgnoreCase drv q ''UPDATE '' \<and> useWhereCheck cfg
         \<and> \<not> StrContainWithIgnoreCase drv q '' WHERE ''
         \<and> \<not> StrContainWithIgnoreCase drv q disableWhereCheckClause
      then s = PanicUpdateSQLMustUseWhere
      else StrContainWithIgnoreCase drv q ''UPDATE '' \<and> forceUpdatedAtCheck cfg
         \<and> \<not> StrContainWithIgnoreCase drv q ''updated_at'' \<and> s = PanicUpdateSQLMustHaveUpdatedAt)"
proof -
  have c: "count_placeholders q = length args"
    using assms by (auto simp add: Exec_def panicP_def PanicDeleteSQLMustUseWhere_def
        PanicUpdateSQLMustUseWhere_def PanicUpdateSQLMustHaveUpdatedAt_def
        PanicLockingReadMustUseNowait_def PanicPlaceHolderNumberNotMatch_def split: if_splits)
  show ?thesis
  proof (cases "useWhereCheck cfg \<and> StrContainWithIgnoreCase drv q ''DELETE ''
         \<and> \<not> StrContainWithIgnoreCase drv q '' WHERE ''
         \<and> \<not> StrContainWithIgnoreCase drv q disableWhereCheckClause")
    case True
    then show ?thesis using assms(1) c by (auto simp add: Exec_def panicP_def)
  next
    case d: False
    show ?thesis
    proof (cases "StrContainWithIgnoreCase drv q ''UPDATE '' \<and> useWhereCheck cfg
         \<and> \<not> StrContainWithIgnoreCase drv q '' WHERE ''
         \<and> \<not> StrContainWithIgnoreCase drv q disableWhereCheckClause")
      case True
      then show ?thesis using assms(1) c d by (auto simp add: Exec_def panicP_def)
    next
      case u: False
      show ?thesis
      proof (cases "StrContainWithIgnoreCase drv q ''UPDATE '' \<and> forceUpdatedAtCheck cfg
         \<and> \<not> StrContainWithIgnoreCase drv q ''updated_at''")
        case True
        then show ?thesis using assms(1) c d u by (auto simp add: Exec_def panicP_def)
      next
        case a: False
        have v2: "\<not> (useWhereCheck cfg \<and> StrContainWithIgnoreCase drv q ''DELETE '')
             \<or> StrContainWithIgnoreCase drv q '' WHERE ''
             \<or> StrContainWithIgnoreCase drv q disableWhereCheckClause" using d by blast
        have v3: "\<not> (useWhereCheck cfg \<and> StrContainWithIgnoreCase drv q ''UPDATE '')
             \<or> StrContainWithIgnoreCase drv q '' WHERE ''
             \<or> StrContainWithIgnoreCase drv q disableWhereCheckClause" using u by blast
        have v4: "\<not> (forceUpdatedAtCheck cfg \<and> StrContainWithIgnoreCase drv q ''UPDATE '')
             \<or> StrContainWithIgnoreCase drv q ''updated_at''" using a by blast
        have False
          using assms unfolding Exec_past_validation[OF c v2 v3 v4]
          by (auto simp add: PanicDeleteSQLMustUseWhere_def
            PanicUpdateSQLMustUseWhere_def PanicUpdateSQLMustHaveUpdatedAt_def
            PanicLockingReadMustUseNowait_def
            split: sum.splits option.splits prod.splits
            dest!: seqScanGate_panic_string)
        then show ?thesis ..
      qed
    qed
  qed
qed

lemma Query_nowait_panic:
  assumes "fst (Query cfg drv tx mp q args h) = Inl (PanicString PanicLockingReadMustUseNowait)"
  shows "forceNowaitOnLockingRead cfg
       \<and> (StrContainWithIgnoreCase drv q '' FOR SELECT'' \<or> StrContainWithIgnoreCase drv q '' FOR UPDATE'')
       \<and> \<not> StrContainWithIgnoreCase drv q '' NOWAIT''"
proof (rule ccontr)
  assume n: "\<not> (forceNowaitOnLockingRead cfg
       \<and> (StrContainWithIgnoreCase drv q '' FOR SELECT'' \<or> StrContainWithIgnoreCase drv q '' FOR UPDATE'')
       \<and> \<not> StrContainWithIgnoreCase drv q '' NOWAIT'')"
  obtain m where m: "mp = Some m"
    using assms by (cases mp) (auto simp add: Query_def panicP_def PanicLockingReadMustUseNowait_def)
  have v1: "count_placeholders q = length args"
    using assms m by (auto simp add: Query_def panicP_def PanicLockingReadMustUseNowait_def
        PanicPlaceHolderNumberNotMatch_def split: if_splits)
  have v2: "StrContainWithIgnoreCase drv q ''SELECT ''"
    using assms m v1 by (auto simp add: Query_def panicP_def PanicLockingReadMustUseNowait_def
        PanicQueryNotContanSelect_def split: if_splits)
  have v3: "\<not> useWhereCheck cfg \<or> StrContainWithIgnoreCase drv q '' WHERE ''
           \<or> StrContainWithIgnoreCase drv q disableWhereCheckClause"
    using assms m v1 v2 by (auto simp add: Query_def panicP_def PanicLockingReadMustUseNowait_def
        PanicSelectSQLMustUseWhere_def split: if_splits)
  have v4: "\<not> forceNowaitOnLockingRead cfg
         \<or> \<not> (StrContainWithIgnoreCase drv q '' FOR SELECT'' \<or> StrContainWithIgnoreCase drv q '' FOR UPDATE'')
         \<or> StrContainWithIgnoreCase drv q '' NOWAIT''"
    using n by blast
  show False
    using assms unfolding m Query_past_validation[OF v1 v2 v3 v4]
    by (auto simp add: PanicLockingReadMustUseNowait_def
        split: sum.splits option.splits prod.splits
        dest!: materializeRows_panic_string seqScanGate_panic_string)
qed






section \<open>The query validator\<close>

text \<open>
  Claim C2. For every statement text and argument list handed to \<^verbatim>\<open>Query\<close> or to
  \<^verbatim>\<open>Exec\<close>: when the number of \<^verbatim>\<open>$\<close> characters in the text differs from the number
  of arguments, the call panics with the placeholder-mismatch message and the history is
  unchanged, so nothing has reached the driver. For \<^verbatim>\<open>Query\<close> the model pointer is
  non-nil (the nil check comes first in the code). The witness is the statement with two
  placeholders and one argument.
\<close>

theorem placeholder_mismatch_aborts:
  assumes "count_placeholders query \<noteq> length args"
  shows "Exec cfg drv tx query args h = (Inl (PanicString PanicPlaceHolderNumberNotMatch), h)
       \<and> Query cfg drv tx (Some m) query args h
           = (Inl (PanicString PanicPlaceHolderNumberNotMatch), h)"
  using assms by (simp add: Exec_def Query_def panicP_def)

theorem placeholder_mismatch_aborts_witness:
  "count_placeholders ''SELECT * FROM table_for_test WHERE id=$1 AND id=$2'' \<noteq> length [GString ''a'']
   \<and> Exec default_config (demo_driver index_plan) None
         ''SELECT * FROM table_for_test WHERE id=$1 AND id=$2'' [GString ''a''] []
       = (Inl (PanicString PanicPlaceHolderNumberNotMatch), [])
   \<and> Query default_config (demo_driver index_plan) None (Some demo_model)
         ''SELECT * FROM table_for_test WHERE id=$1 AND id=$2'' [GString ''a''] []
       = (Inl (PanicString PanicPlaceHolderNumberNotMatch), [])"
proof -
  have c: "count_placeholders ''SELECT * FROM table_for_test WHERE id=$1 AND id=$2''
             \<noteq> length [GString ''a'']"
    by (simp add: count_placeholders_def)
  show ?thesis
    using c placeholder_mismatch_aborts [OF c, of default_config "demo_driver index_plan" None "[]" demo_model]
    by blast
qed








text \<open>
  Claim C4, as stated, fails twice. On the mutation path: \<^verbatim>\<open>Exec\<close> has no NOWAIT check,
  so with the check on it takes a locking read without \<^verbatim>\<open>NOWAIT\<close> to the driver and
  returns its result. On the read path: \<^verbatim>\<open>Query\<close> looks for \<^verbatim>\<open> FOR UPDATE\<close> with a
  space in front, so a statement whose \<^verbatim>\<open>FOR UPDATE\<close> follows a line break, without
  \<^verbatim>\<open>NOWAIT\<close>, goes to the driver and its two rows come back.
\<close>

theorem nowait_all_paths_counterexample:
  "forceNowaitOnLockingRead default_config
   \<and> StrContainWithIgnoreCase (demo_driver index_plan)
         ''SELECT * FROM t WHERE id=$1 FOR UPDATE'' ''FOR UPDATE''
   \<and> \<not> StrContainWithIgnoreCase (demo_driver index_plan)
         ''SELECT * FROM t WHERE id=$1 FOR UPDATE'' ''NOWAIT''
   \<and> Exec default_config (demo_driver index_plan) None
         ''SELECT * FROM t WHERE id=$1 FOR UPDATE'' [GInt 1] []
       = (Inr (Some 1, None),
          [EvExec DB ''SELECT * FROM t WHERE id=$1 FOR UPDATE'' [GInt 1],
           EvBegin,
           EvExec (Tx 1) set_local_seqscan_off [],
           EvQuery (Tx 1)
             ''EXPLAIN (ANALYZE false, FORMAT json) SELECT * FROM t WHERE id=$1 FOR UPDATE'' [GInt 1],
           EvRollback 1])
   \<and> StrContainWithIgnoreCase (demo_driver index_plan)
         (''SELECT * FROM t WHERE id=$1'' @ [CHR 0x0A] @ ''FOR UPDATE'') ''FOR UPDATE''
   \<and> \<not> StrContainWithIgnoreCase (demo_driver index_plan)
         (''SELECT * FROM t WHERE id=$1'' @ [CHR 0x0A] @ ''FOR UPDATE'') ''NOWAIT''
   \<and> fst (Query default_config (demo_driver index_plan) None (Some demo_model)
              (''SELECT * FROM t WHERE id=$1'' @ [CHR 0x0A] @ ''FOR UPDATE'') [GInt 1] [])
       = Inr (Some [AStruct ''TableForTest''
                      [Field ''ID'' ''id'' (GInt 1), Field ''Name'' ''name'' (GString ''alice'')],
                    AStruct ''TableForTest''
                      [Field ''ID'' ''id'' (GInt 2), Field ''Name'' ''name'' (GString ''bob'')]],
              None)"
  by code_simp

text \<open>
  Claim C4, amended. With the NOWAIT check on, a statement handed to \<^verbatim>\<open>Query\<close> that
  passes the earlier checks and contains \<^verbatim>\<open> FOR SELECT\<close> or \<^verbatim>\<open> FOR UPDATE\<close> but not
  \<^verbatim>\<open> NOWAIT\<close> (each with its leading space, case-insensitive) panics with the
  locking-read message, the history unchanged. \<^verbatim>\<open>Query\<close> panics with that message only
  then. \<^verbatim>\<open>Exec\<close> never panics with it: for every configuration, driver, statement,
  argument list and history.
\<close>

theorem nowait_check_on_read_path:
  "(forceNowaitOnLockingRead cfg
      \<and> count_placeholders q = length args
      \<and> StrContainWithIgnoreCase drv q ''SELECT ''
      \<and> (\<not> useWhereCheck cfg \<or> StrContainWithIgnoreCase drv q '' WHERE ''
           \<or> StrContainWithIgnoreCase drv q disableWhereCheckClause)
      \<and> (StrContainWithIgnoreCase drv q '' FOR SELECT''
           \<or> StrContainWithIgnoreCase drv q '' FOR UPDATE'')
      \<and> \<not> StrContainWithIgnoreCase drv q '' NOWAIT''
    \<longrightarrow> Query cfg drv tx (Some m) q args h
          = (Inl (PanicString PanicLockingReadMustUseNowait), h))
   \<and> (fst (Query cfg drv tx mp q args h) = Inl (PanicString PanicLockingReadMustUseNowait)
    \<longrightarrow> forceNowaitOnLockingRead cfg
        \<and> (StrContainWithIgnoreCase drv q '' FOR SELECT''
             \<or> StrContainWithIgnoreCase drv q '' FOR UPDATE'')
        \<and> \<not> StrContainWithIgnoreCase drv q '' NOWAIT'')
   \<and> fst (Exec cfg drv tx q args h) \<noteq> Inl (PanicString PanicLockingReadMustUseNowait)"
proof (intro conjI impI)
  assume "forceNowaitOnLockingRead cfg
      \<and> count_placeholders q = length args
      \<and> StrContainWithIgnoreCase drv q ''SELECT ''
      \<and> (\<not> useWhereCheck cfg \<or> StrContainWithIgnoreCase drv q '' WHERE ''
           \<or> StrContainWithIgnoreCase drv q disableWhereCheckClause)
      \<and> (StrContainWithIgnoreCase drv q '' FOR SELECT''
           \<or> StrContainWithIgnoreCase drv q '' FOR UPDATE'')
      \<and> \<not> StrContainWithIgnoreCase drv q '' NOWAIT''"
  then show "Query cfg drv tx (Some m) q args h = (Inl (PanicString PanicLockingReadMustUseNowait), h)"
    by (auto simp add: Query_def panicP_def)
next
  assume a: "fst (Query cfg drv tx mp q args h) = Inl (PanicString PanicLockingReadMustUseNowait)"
  from Query_nowait_panic[OF a]
  show "forceNowaitOnLockingRead cfg"
    and "StrContainWithIgnoreCase drv q '' FOR SELECT'' \<or> StrContainWithIgnoreCase drv q '' FOR UPDATE''"
    and "\<not> StrContainWithIgnoreCase drv q '' NOWAIT''"
    by blast+
next
  show "fst (Exec cfg drv tx q args h) \<noteq> Inl (PanicString PanicLockingReadMustUseNowait)"
  proof
    assume "fst (Exec cfg drv tx q args h) = Inl (PanicString PanicLockingReadMustUseNowait)"
    from Exec_validator_panic[OF this] show False
      by (auto simp add: PanicDeleteSQLMustUseWhere_def PanicUpdateSQLMustUseWhere_def
          PanicUpdateSQLMustHaveUpdatedAt_def PanicLockingReadMustUseNowait_def split: if_splits)
  qed
qed

theorem nowait_check_on_read_path_witness:
  "forceNowaitOnLockingRead default_config
   \<and> Query default_config (demo_driver index_plan) None (Some demo_model)
        ''SELECT * FROM t WHERE id=$1 FOR UPDATE'' [GInt 1] []
       = (Inl (PanicString PanicLockingReadMustUseNowait), [])
   \<and> (StrContainWithIgnoreCase (demo_driver index_plan)
          ''SELECT * FROM t WHERE id=$1 FOR UPDATE'' '' FOR SELECT''
        \<or> StrContainWithIgnoreCase (demo_driver index_plan)
          ''SELECT * FROM t WHERE id=$1 FOR UPDATE'' '' FOR UPDATE'')
   \<and> fst (Exec default_config (demo_driver index_plan) None
        ''INSERT INTO t (name) VALUES ($1)'' [GString ''x''] [])
       \<noteq> Inl (PanicString PanicLockingReadMustUseNowait)"
proof -
  have n: "forceNowaitOnLockingRead default_config" by (simp add: default_config_def)
  have pre: "forceNowaitOnLockingRead default_config
      \<and> count_placeholders ''SELECT * FROM t WHERE id=$1 FOR UPDATE'' = length [GInt 1]
      \<and> StrContainWithIgnoreCase (demo_driver index_plan)
           ''SELECT * FROM t WHERE id=$1 FOR UPDATE'' ''SELECT ''
      \<and> (\<not> useWhereCheck default_config
           \<or> StrContainWithIgnoreCase (demo_driver index_plan)
                ''SELECT * FROM t WHERE id=$1 FOR UPDATE'' '' WHERE ''
           \<or> StrContainWithIgnoreCase (demo_driver index_plan)
                ''SELECT * FROM t WHERE id=$1 FOR UPDATE'' disableWhereCheckClause)
      \<and> (StrContainWithIgnoreCase (demo_driver index_plan)
             ''SELECT * FROM t WHERE id=$1 FOR UPDATE'' '' FOR SELECT''
           \<or> StrContainWithIgnoreCase (demo_driver index_plan)
                ''SELECT * FROM t WHERE id=$1 FOR UPDATE'' '' FOR UPDATE'')
      \<and> \<not> StrContainWithIgnoreCase (demo_driver index_plan)
             ''SELECT * FROM t WHERE id=$1 FOR UPDATE'' '' NOWAIT''"
    by code_simp
  note t1 = nowait_check_on_read_path
    [where cfg=default_config and q="''SELECT * FROM t WHERE id=$1 FOR UPDATE''"
       and args="[GInt 1]" and drv="demo_driver index_plan" and tx=None and m=demo_model
       and h="[]" and mp="Some demo_model"]
  have r1: "Query default_config (demo_driver index_plan) None (Some demo_model)
        ''SELECT * FROM t WHERE id=$1 FOR UPDATE'' [GInt 1] []
       = (Inl (PanicString PanicLockingReadMustUseNowait), [])"
    using t1 pre by blast
  then have "fst (Query default_config (demo_driver index_plan) None (Some demo_model)
        ''SELECT * FROM t WHERE id=$1 FOR UPDATE'' [GInt 1] [])
       = Inl (PanicString PanicLockingReadMustUseNowait)" by simp
  then have r2: "StrContainWithIgnoreCase (demo_driver index_plan)
          ''SELECT * FROM t WHERE id=$1 FOR UPDATE'' '' FOR SELECT''
        \<or> StrContainWithIgnoreCase (demo_driver index_plan)
          ''SELECT * FROM t WHERE id=$1 FOR UPDATE'' '' FOR UPDATE''"
    using t1 by blast
  have r3: "fst (Exec default_config (demo_driver index_plan) None
        ''INSERT INTO t (name) VALUES ($1)'' [GString ''x''] [])
       \<noteq> Inl (PanicString PanicLockingReadMustUseNowait)"
    using nowait_check_on_read_path
      [where cfg=default_config and q="''INSERT INTO t (name) VALUES ($1)''"
         and args="[GString ''x'']" and drv="demo_driver index_plan" and tx=None and h="[]"]
    by blast
  show ?thesis using n r1 r2 r3 by blast
qed

section \<open>The transaction coordinator: rollback on failure\<close>

lemma doAndRecover_returns:
  "f tx h = (Inr r, h1) \<Longrightarrow> doAndRecover drv tx f h = (Inr r, h1)"
  by (simp add: doAndRecover_def)

lemma doAndRecover_panics:
  "f tx h = (Inl p, h1) \<Longrightarrow>
   doAndRecover drv tx f h =
     (case drv_Rollback drv tx (h1 @ [EvLog ''warn'' ''rollback start because panic occured'']) of
        Some err \<Rightarrow>
          (Inl (PanicError err),
           h1 @ [EvLog ''warn'' ''rollback start because panic occured'', EvRollback tx])
      | None \<Rightarrow>
          (Inl p,
           h1 @ [EvLog ''warn'' ''rollback start because panic occured'', EvRollback tx,
                 EvLog ''warn'' ''rollback end'']))"
  by (simp add: doAndRecover_def bindP_def logP_def tx_Rollback_def panicP_def split: option.splits)

lemma doAndRecover_result:
  "doAndRecover drv tx f h = (Inr r, h1) \<Longrightarrow> f tx h = (Inr r, h1)"
proof -
  assume a: "doAndRecover drv tx f h = (Inr r, h1)"
  obtain x h2 where f: "f tx h = (x, h2)" by (cases "f tx h")
  show ?thesis
  proof (cases x)
    case (Inl p)
    then show ?thesis using a f doAndRecover_panics[of f tx h p h2 drv]
      by (simp split: option.splits)
  next
    case (Inr r')
    then show ?thesis using a f doAndRecover_returns[of f tx h r' h2 drv] by simp
  qed
qed

text \<open>
  Claim C1. \<^verbatim>\<open>Transaction\<close> begins a transaction and runs the unit of work \<open>f\<close> on it.
  \<^item> When \<open>f\<close> returns a non-nil error and the driver's rollback succeeds,
    \<^verbatim>\<open>Transaction\<close> returns that same error, and the history shows the rollback between
    the end of \<open>f\<close> and the return.
  \<^item> When \<open>f\<close> panics and the driver's rollback succeeds, \<^verbatim>\<open>Transaction\<close> panics with
    the value \<open>f\<close> panicked with, and the history shows the rollback completed before.
  \<^item> Whatever \<^verbatim>\<open>Transaction\<close> returns, nil or an error, is what \<open>f\<close> returned: it has
    no error of its own.
  \<^item> A rollback that fails is fatal on both paths: the panic carries the rollback's
    error (section 4.3 of the specification).
\<close>

theorem transaction_rollback_on_failure:
  "(drv_Begin drv h = Inr tx
      \<and> f tx (h @ [EvBegin]) = (Inr (Some e), h1)
      \<and> drv_Rollback drv tx (h1 @ [EvLog ''info'' ''rollback start'']) = None
    \<longrightarrow> Transaction drv f h
          = (Inr (Some e),
             h1 @ [EvLog ''info'' ''rollback start'', EvRollback tx, EvLog ''info'' ''rollback end'']))
   \<and> (drv_Begin drv h = Inr tx
      \<and> f tx (h @ [EvBegin]) = (Inl r, h1)
      \<and> drv_Rollback drv tx (h1 @ [EvLog ''warn'' ''rollback start because panic occured'']) = None
    \<longrightarrow> Transaction drv f h
          = (Inl r,
             h1 @ [EvLog ''warn'' ''rollback start because panic occured'', EvRollback tx,
                   EvLog ''warn'' ''rollback end'']))
   \<and> (Transaction drv f h = (Inr res, h')
    \<longrightarrow> (\<exists>tx' h2. drv_Begin drv h = Inr tx' \<and> f tx' (h @ [EvBegin]) = (Inr res, h2)))
   \<and> (drv_Begin drv h = Inr tx
      \<and> f tx (h @ [EvBegin]) = (Inr (Some e), h1)
      \<and> drv_Rollback drv tx (h1 @ [EvLog ''info'' ''rollback start'']) = Some e2
    \<longrightarrow> Transaction drv f h
          = (Inl (PanicError e2), h1 @ [EvLog ''info'' ''rollback start'', EvRollback tx]))
   \<and> (drv_Begin drv h = Inr tx
      \<and> f tx (h @ [EvBegin]) = (Inl r, h1)
      \<and> drv_Rollback drv tx (h1 @ [EvLog ''warn'' ''rollback start because panic occured'']) = Some e2
    \<longrightarrow> Transaction drv f h
          = (Inl (PanicError e2),
             h1 @ [EvLog ''warn'' ''rollback start because panic occured'', EvRollback tx]))"
proof (intro conjI impI)
  assume a: "drv_Begin drv h = Inr tx
      \<and> f tx (h @ [EvBegin]) = (Inr (Some e), h1)
      \<and> drv_Rollback drv tx (h1 @ [EvLog ''info'' ''rollback start'']) = None"
  then have "doAndRecover drv tx f (h @ [EvBegin]) = (Inr (Some e), h1)"
    by (simp add: doAndRecover_returns)
  then show "Transaction drv f h
          = (Inr (Some e),
             h1 @ [EvLog ''info'' ''rollback start'', EvRollback tx, EvLog ''info'' ''rollback end''])"
    using a by (simp add: Transaction_def bindP_def DB_Begin_def logP_def tx_Rollback_def returnP_def)
next
  assume a: "drv_Begin drv h = Inr tx
      \<and> f tx (h @ [EvBegin]) = (Inl r, h1)
      \<and> drv_Rollback drv tx (h1 @ [EvLog ''warn'' ''rollback start because panic occured'']) = None"
  then have "doAndRecover drv tx f (h @ [EvBegin])
      = (Inl r, h1 @ [EvLog ''warn'' ''rollback start because panic occured'', EvRollback tx,
                      EvLog ''warn'' ''rollback end''])"
    using doAndRecover_panics[of f tx "h @ [EvBegin]" r h1 drv] by simp
  then show "Transaction drv f h
          = (Inl r,
             h1 @ [EvLog ''warn'' ''rollback start because panic occured'', EvRollback tx,
                   EvLog ''warn'' ''rollback end''])"
    using a by (simp add: Transaction_def bindP_def DB_Begin_def)
next
  assume a: "Transaction drv f h = (Inr res, h')"
  show "\<exists>tx' h2. drv_Begin drv h = Inr tx' \<and> f tx' (h @ [EvBegin]) = (Inr res, h2)"
  proof (cases "drv_Begin drv h")
    case (Inl err)
    then show ?thesis using a by (simp add: Transaction_def bindP_def DB_Begin_def panicP_def)
  next
    case (Inr tx')
    obtain x h2 where d: "doAndRecover drv tx' f (h @ [EvBegin]) = (x, h2)"
      by (cases "doAndRecover drv tx' f (h @ [EvBegin])")
    show ?thesis
    proof (cases x)
      case (Inl p)
      then show ?thesis using a Inr d by (simp add: Transaction_def bindP_def DB_Begin_def)
    next
      case r: (Inr r')
      have "r' = res"
        using a Inr d r
        by (auto simp add: Transaction_def bindP_def DB_Begin_def logP_def tx_Rollback_def
            tx_Commit_def returnP_def panicP_def split: option.splits if_splits)
      then have "f tx' (h @ [EvBegin]) = (Inr res, h2)"
        using doAndRecover_result[of drv tx' f "h @ [EvBegin]" r' h2] d r by simp
      then show ?thesis using Inr by blast
    qed
  qed
next
  assume a: "drv_Begin drv h = Inr tx
      \<and> f tx (h @ [EvBegin]) = (Inr (Some e), h1)
      \<and> drv_Rollback drv tx (h1 @ [EvLog ''info'' ''rollback start'']) = Some e2"
  then have "doAndRecover drv tx f (h @ [EvBegin]) = (Inr (Some e), h1)"
    by (simp add: doAndRecover_returns)
  then show "Transaction drv f h
          = (Inl (PanicError e2), h1 @ [EvLog ''info'' ''rollback start'', EvRollback tx])"
    using a by (simp add: Transaction_def bindP_def DB_Begin_def logP_def tx_Rollback_def panicP_def)
next
  assume a: "drv_Begin drv h = Inr tx
      \<and> f tx (h @ [EvBegin]) = (Inl r, h1)
      \<and> drv_Rollback drv tx (h1 @ [EvLog ''warn'' ''rollback start because panic occured'']) = Some e2"
  then have "doAndRecover drv tx f (h @ [EvBegin])
      = (Inl (PanicError e2), h1 @ [EvLog ''warn'' ''rollback start because panic occured'', EvRollback tx])"
    using doAndRecover_panics[of f tx "h @ [EvBegin]" r h1 drv] by simp
  then show "Transaction drv f h
          = (Inl (PanicError e2),
             h1 @ [EvLog ''warn'' ''rollback start because panic occured'', EvRollback tx])"
    using a by (simp add: Transaction_def bindP_def DB_Begin_def)
qed


theorem transaction_rollback_on_failure_witness:
  "Transaction (demo_driver index_plan) (\<lambda>tx. returnP (Some ErrUniqConstraint)) []
     = (Inr (Some ErrUniqConstraint),
        [EvBegin, EvLog ''info'' ''rollback start'', EvRollback 0, EvLog ''info'' ''rollback end''])
   \<and> Transaction (demo_driver index_plan) (\<lambda>tx. panicP (PanicString ''boom'')) []
     = (Inl (PanicString ''boom''),
        [EvBegin, EvLog ''warn'' ''rollback start because panic occured'', EvRollback 0,
         EvLog ''warn'' ''rollback end''])
   \<and> (\<exists>tx' h2. drv_Begin (demo_driver index_plan) [] = Inr tx'
         \<and> returnP (Some ErrUniqConstraint) ([] @ [EvBegin]) = (Inr (Some ErrUniqConstraint), h2))
   \<and> Transaction
        ((demo_driver index_plan)\<lparr>drv_Rollback := (\<lambda>t h. Some (DriverError ''connection lost''))\<rparr>)
        (\<lambda>tx. returnP (Some ErrUniqConstraint)) []
     = (Inl (PanicError (DriverError ''connection lost'')),
        [EvBegin, EvLog ''info'' ''rollback start'', EvRollback 0])
   \<and> Transaction
        ((demo_driver index_plan)\<lparr>drv_Rollback := (\<lambda>t h. Some (DriverError ''connection lost''))\<rparr>)
        (\<lambda>tx. panicP (PanicString ''boom'')) []
     = (Inl (PanicError (DriverError ''connection lost'')),
        [EvBegin, EvLog ''warn'' ''rollback start because panic occured'', EvRollback 0])"
proof -
  let ?d = "demo_driver index_plan"
  let ?d2 = "(demo_driver index_plan)\<lparr>drv_Rollback := (\<lambda>t h. Some (DriverError ''connection lost''))\<rparr>"
  let ?f = "\<lambda>tx::nat. (returnP (Some ErrUniqConstraint) :: error option prog)"
  let ?g = "\<lambda>tx::nat. (panicP (PanicString ''boom'') :: error option prog)"
  have b: "drv_Begin ?d [] = Inr 0" by (simp add: demo_driver_def)
  have b2: "drv_Begin ?d2 [] = Inr 0" by (simp add: demo_driver_def)
  have f: "?f 0 ([] @ [EvBegin]) = (Inr (Some ErrUniqConstraint), [EvBegin])" by (simp add: returnP_def)
  have g: "?g 0 ([] @ [EvBegin]) = (Inl (PanicString ''boom''), [EvBegin])" by (simp add: panicP_def)
  have rb1: "drv_Rollback ?d 0 ([EvBegin] @ [EvLog ''info'' ''rollback start'']) = None"
    by (simp add: demo_driver_def)
  have rb2: "drv_Rollback ?d 0 ([EvBegin] @ [EvLog ''warn'' ''rollback start because panic occured'']) = None"
    by (simp add: demo_driver_def)
  have rb3: "drv_Rollback ?d2 0 ([EvBegin] @ [EvLog ''info'' ''rollback start''])
               = Some (DriverError ''connection lost'')"
    by (simp add: demo_driver_def)
  have rb4: "drv_Rollback ?d2 0 ([EvBegin] @ [EvLog ''warn'' ''rollback start because panic occured''])
               = Some (DriverError ''connection lost'')"
    by (simp add: demo_driver_def)
  have r1: "Transaction ?d ?f []
     = (Inr (Some ErrUniqConstraint),
        [EvBegin] @ [EvLog ''info'' ''rollback start'', EvRollback 0, EvLog ''info'' ''rollback end''])"
    using transaction_rollback_on_failure
      [where drv="?d" and f="?f" and h="[]" and tx=0 and e=ErrUniqConstraint and ?h1.0="[EvBegin]"]
      b f rb1 by blast
  have r2: "Transaction ?d ?g []
     = (Inl (PanicString ''boom''),
        [EvBegin] @ [EvLog ''warn'' ''rollback start because panic occured'', EvRollback 0,
         EvLog ''warn'' ''rollback end''])"
    using transaction_rollback_on_failure
      [where drv="?d" and f="?g" and h="[]" and tx=0 and r="PanicString ''boom''" and ?h1.0="[EvBegin]"]
      b g rb2 by blast
  have r3: "\<exists>tx' h2. drv_Begin ?d [] = Inr tx'
         \<and> ?f tx' ([] @ [EvBegin]) = (Inr (Some ErrUniqConstraint), h2)"
    using transaction_rollback_on_failure
      [where drv="?d" and f="?f" and h="[]" and res="Some ErrUniqConstraint"
         and h'="[EvBegin] @ [EvLog ''info'' ''rollback start'', EvRollback 0, EvLog ''info'' ''rollback end'']"]
      r1 by blast
  have r4: "Transaction ?d2 ?f []
     = (Inl (PanicError (DriverError ''connection lost'')),
        [EvBegin] @ [EvLog ''info'' ''rollback start'', EvRollback 0])"
    using transaction_rollback_on_failure
      [where drv="?d2" and f="?f" and h="[]" and tx=0 and e=ErrUniqConstraint and ?h1.0="[EvBegin]"
         and ?e2.0="DriverError ''connection lost''"]
      b2 f rb3 by blast
  have r5: "Transaction ?d2 ?g []
     = (Inl (PanicError (DriverError ''connection lost'')),
        [EvBegin] @ [EvLog ''warn'' ''rollback start because panic occured'', EvRollback 0])"
    using transaction_rollback_on_failure
      [where drv="?d2" and f="?g" and h="[]" and tx=0 and r="PanicString ''boom''" and ?h1.0="[EvBegin]"
         and ?e2.0="DriverError ''connection lost''"]
      b2 g rb4 by blast
  show ?thesis using r1 r2 r3 r4 r5 by simp
qed

end
